theory Spec2Isabelle
  imports Main "HOL-Library.Word"
begin

section \<open>The JNI adapter of the whisper Android library (jni.c)\<close>

text \<open>
  The file \<^verbatim>\<open>android/whisperlib/src/main/jni/whisper/jni.c\<close> marshals between a
  managed (Java/Kotlin) caller and the native inference library declared in
  \<^verbatim>\<open>whisper.h\<close>. Neither side is part of the file: the managed stream object, the
  Android asset manager and every \<^verbatim>\<open>whisper_*\<close> function are taken as parameters
  here, and the theorems hold for all of them.
\<close>

subsection \<open>Scalar types\<close>

text \<open>
  Machine integers are words. A \<^verbatim>\<open>jint\<close> is a signed 32-bit value (read with
  \<open>sint\<close>, compared with \<open><s\<close> and \<open>\<le>s\<close>); \<^verbatim>\<open>size_t\<close> is unsigned and 64 bits wide
  (the LP64 data model of arm64-v8a and x86_64); a pointer is its address, \<open>0\<close> for
  \<^verbatim>\<open>NULL\<close>. A C \<^verbatim>\<open>float\<close> is kept as its 32-bit pattern: the file only stores and
  passes floats, so no float arithmetic is modelled.
\<close>

type_synonym jint = "32 word"
type_synonym jsize = "32 word"
type_synonym jlong = "64 word"
type_synonym jbyte = "8 word"
type_synonym c_int = "32 word"
type_synonym size_t = "64 word"
type_synonym c_float = "32 word"
type_synonym ptr = "64 word"

definition NULL :: ptr where
  "NULL = 0"

subsection \<open>The log and the JNI calls\<close>

text \<open>
  \<^verbatim>\<open>LOGI\<close> and \<^verbatim>\<open>LOGW\<close> expand to \<^verbatim>\<open>__android_log_print\<close> with the tag
  \<^verbatim>\<open>"JNI"\<close>. A log line keeps the priority, the tag, the format string and the
  arguments; formatting itself is left to the platform.
\<close>

datatype log_priority = ANDROID_LOG_INFO | ANDROID_LOG_WARN

datatype log_arg =
    ArgInt int
  | ArgStr string
  | ArgFloat c_float
  | ArgFloatSum "c_float list"  \<comment> \<open>the float sum of the operands, left to right\<close>

type_synonym log_line = "log_priority \<times> string \<times> string \<times> log_arg list"

definition TAG :: string where
  "TAG = ''JNI''"

text \<open>The third argument of the \<^verbatim>\<open>Release<Type>ArrayElements\<close> functions.\<close>

datatype release_mode = MODE_0 | JNI_COMMIT | JNI_ABORT

text \<open>
  One constructor for each function of the \<^verbatim>\<open>JNIEnv\<close> table that jni.c calls, with
  the scalar arguments of the call.
\<close>

datatype jni_call =
    GetObjectClass
  | GetMethodID string string
  | CallIntMethod_available
  | CallIntMethod_read jint jint
  | NewByteArray jsize
  | GetByteArrayElements
  | ReleaseByteArrayElements release_mode
  | DeleteLocalRef
  | GetStringUTFChars string
  | ReleaseStringUTFChars string
  | GetFloatArrayElements
  | GetArrayLength
  | ReleaseFloatArrayElements release_mode
  | NewStringUTF string

text \<open>
  The managed runtime as the adapter sees it through \<^verbatim>\<open>JNIEnv *\<close>: the JNI calls made
  so far and the lines logged so far, oldest first.
\<close>

record jni_env =
  jni_calls :: "jni_call list"
  logcat :: "log_line list"

definition jni :: "jni_call \<Rightarrow> jni_env \<Rightarrow> jni_env" where
  "jni c e = e\<lparr>jni_calls := jni_calls e @ [c]\<rparr>"

definition LOGI :: "string \<Rightarrow> log_arg list \<Rightarrow> jni_env \<Rightarrow> jni_env" where
  "LOGI fmt args e = e\<lparr>logcat := logcat e @ [(ANDROID_LOG_INFO, TAG, fmt, args)]\<rparr>"

definition LOGW :: "string \<Rightarrow> log_arg list \<Rightarrow> jni_env \<Rightarrow> jni_env" where
  "LOGW fmt args e = e\<lparr>logcat := logcat e @ [(ANDROID_LOG_WARN, TAG, fmt, args)]\<rparr>"

text \<open>
  The ways a call can end without returning. \<^verbatim>\<open>NewByteArray\<close> with a negative length
  makes the Android runtime abort the process; \<^verbatim>\<open>memcpy\<close> beyond the end of either
  buffer is undefined behaviour, and the model stops there.
\<close>

datatype abort = NegativeArrayLength jsize | OutOfBounds

definition memcpy :: "jbyte list \<Rightarrow> jbyte list \<Rightarrow> size_t \<Rightarrow> jbyte list option" where
  "memcpy dst src n =
     (if unat n \<le> length dst \<and> unat n \<le> length src
      then Some (take (unat n) src @ drop (unat n) dst)
      else None)"

subsection \<open>The streaming adapter\<close>

text \<open>
  \<^verbatim>\<open>struct input_stream_context\<close>. The managed stream is an object of an unknown class:
  \<open>input_stream\<close> is its state, and the two method ids are the methods that
  \<^verbatim>\<open>GetMethodID\<close> found in its class, as functions on that state.
  \<open>mid_available s\<close> is \<^verbatim>\<open>available()\<close>: the \<^verbatim>\<open>jint\<close> that \<^verbatim>\<open>CallIntMethod\<close>
  delivers, and the next state. \<open>mid_read b off len s\<close> is \<^verbatim>\<open>read(b, off, len)\<close>:
  the \<^verbatim>\<open>jint\<close> delivered, the contents of the array \<open>b\<close> afterwards, and the next
  state. The field \<^verbatim>\<open>thiz\<close> is stored and never read; it is left out.
\<close>

record 's input_stream_context =
  offset :: size_t
  env :: jni_env
  input_stream :: 's
  mid_available :: "'s \<Rightarrow> jint \<times> 's"
  mid_read :: "jbyte list \<Rightarrow> jint \<Rightarrow> jint \<Rightarrow> 's \<Rightarrow> jint \<times> jbyte list \<times> 's"

text \<open>
  Line 39, the initialiser of \<^verbatim>\<open>size_to_copy\<close>. In \<^verbatim>\<open>read_size < avail_size\<close> the
  \<^verbatim>\<open>jint\<close> is converted to \<^verbatim>\<open>size_t\<close> (\<open>scast\<close>: sign extension) and the
  comparison is unsigned; \<^verbatim>\<open>(jint)read_size\<close> keeps the low 32 bits (\<open>ucast\<close>).
\<close>

definition clamp_read_size :: "size_t \<Rightarrow> jint \<Rightarrow> jint" where
  "clamp_read_size read_size avail_size =
     (if read_size < scast avail_size then ucast read_size else avail_size)"

text \<open>
  \<^verbatim>\<open>inputStreamRead\<close> (lines 35 to 58). Where \<^verbatim>\<open>size_to_copy\<close> meets a \<^verbatim>\<open>size_t\<close>
  (the comparison of line 45, the length of \<^verbatim>\<open>memcpy\<close>, the addition to the offset
  and the returned value) it is converted by sign extension. The result is the
  returned count, the output buffer and the context afterwards.
\<close>

definition inputStreamRead ::
  "'s input_stream_context \<Rightarrow> jbyte list \<Rightarrow> size_t \<Rightarrow>
     abort + (size_t \<times> jbyte list \<times> 's input_stream_context)" where
  "inputStreamRead isc output read_size =
     (let (avail_size, s1) = mid_available isc (input_stream isc);
          e1 = jni CallIntMethod_available (env isc);
          size_to_copy = clamp_read_size read_size avail_size;
          e2 = jni (NewByteArray size_to_copy) e1
      in if size_to_copy <s 0 then Inl (NegativeArrayLength size_to_copy)
         else
           let byte_array = replicate (unat size_to_copy) (0 :: jbyte);
               (n_read, byte_array_elements, s2) = mid_read isc byte_array 0 size_to_copy s1;
               e3 = jni (CallIntMethod_read 0 size_to_copy) e2;
               e4 = (if scast size_to_copy \<noteq> read_size \<or> size_to_copy \<noteq> n_read
                     then LOGI ''Insufficient Read: Req=%zu, ToCopy=%d, Available=%d''
                            [ArgInt (uint read_size), ArgInt (sint size_to_copy),
                             ArgInt (sint n_read)] e3
                     else e3);
               e5 = jni GetByteArrayElements e4
           in case memcpy output byte_array_elements (scast size_to_copy) of
                None \<Rightarrow> Inl OutOfBounds
              | Some output' \<Rightarrow>
                  let e6 = jni (ReleaseByteArrayElements JNI_ABORT) e5;
                      e7 = jni DeleteLocalRef e6
                  in Inr (scast size_to_copy, output',
                          isc\<lparr>offset := offset isc + scast size_to_copy, env := e7,
                              input_stream := s2\<rparr>))"

text \<open>\<^verbatim>\<open>inputStreamEof\<close> (lines 59 to 64): the returned flag and the context afterwards.\<close>

definition inputStreamEof :: "'s input_stream_context \<Rightarrow> bool \<times> 's input_stream_context" where
  "inputStreamEof isc =
     (let (result, s1) = mid_available isc (input_stream isc);
          e1 = jni CallIntMethod_available (env isc)
      in (result \<le>s 0, isc\<lparr>env := e1, input_stream := s1\<rparr>))"

text \<open>\<^verbatim>\<open>inputStreamClose\<close> (lines 65 to 67): the body is empty.\<close>

definition inputStreamClose :: "'s input_stream_context \<Rightarrow> 's input_stream_context" where
  "inputStreamClose isc = isc"

subsection \<open>The native library: whisper.h\<close>

text \<open>
  \<^verbatim>\<open>struct whisper_model_loader\<close>: a context and three callbacks on it. The context is
  a \<^verbatim>\<open>void *\<close> in C; here it has the type of what the callbacks expect.
\<close>

record 'c whisper_model_loader =
  loader_context :: 'c
  read :: "'c \<Rightarrow> jbyte list \<Rightarrow> size_t \<Rightarrow> abort + (size_t \<times> jbyte list \<times> 'c)"
  eof :: "'c \<Rightarrow> bool \<times> 'c"
  close :: "'c \<Rightarrow> 'c"

datatype whisper_sampling_strategy = WHISPER_SAMPLING_GREEDY | WHISPER_SAMPLING_BEAM_SEARCH

text \<open>
  \<^verbatim>\<open>struct whisper_full_params\<close>, with the fields that jni.c assigns, in the order of
  the assignments. The struct is declared in whisper.h and has more fields: they are
  the extension part of the record (\<open>'x\<close> in \<open>'x whisper_full_params_scheme\<close>), which
  jni.c never touches.
\<close>

record whisper_full_params =
  print_realtime :: bool
  print_progress :: bool
  print_timestamps :: bool
  print_special :: bool
  translate :: bool
  language :: string
  n_threads :: c_int
  offset_ms :: c_int
  duration_ms :: c_int
  no_context :: bool
  no_timestamps :: bool
  single_segment :: bool
  token_timestamps :: bool
  max_len :: c_int
  max_tokens :: c_int
  split_on_word :: bool
  audio_ctx :: c_int
  n_max_text_ctx :: c_int
  debug_mode :: bool
  tdrz_enable :: bool
  detect_language :: bool
  temperature :: c_float
  temperature_inc :: c_float
  entropy_thold :: c_float
  logprob_thold :: c_float
  no_speech_thold :: c_float
  suppress_blank :: bool
  suppress_nst :: bool
  greedy_best_of :: c_int

text \<open>\<^verbatim>\<open>struct whisper_timings\<close>, with the fields that jni.c reads.\<close>

record whisper_timings =
  sample_ms :: c_float
  encode_ms :: c_float
  decode_ms :: c_float
  batchd_ms :: c_float
  prompt_ms :: c_float

text \<open>
  The calls into the library that take a context or create one, with their arguments
  (a loader is a record of functions and is not kept).
\<close>

datatype 'x whisper_call =
    Call_whisper_init_with_params
  | Call_whisper_init_from_file_with_params string
  | Call_whisper_reset_timings ptr
  | Call_whisper_full ptr "'x whisper_full_params_scheme" "c_float list" c_int
  | Call_whisper_get_timings ptr
  | Call_whisper_full_n_segments ptr
  | Call_whisper_full_get_segment_text ptr c_int

text \<open>
  The native side: the state of the library (all its contexts), of a type \<open>'n\<close> that
  the adapter never looks into, and the calls made into it so far, oldest first.
\<close>

record ('n, 'x) native =
  whisper_state :: 'n
  whisper_calls :: "'x whisper_call list"

text \<open>A call that leaves the library in state \<open>n\<close>, and a call that only reads.\<close>

definition called :: "'x whisper_call \<Rightarrow> 'n \<Rightarrow> ('n, 'x) native \<Rightarrow> ('n, 'x) native" where
  "called c n w = \<lparr>whisper_state = n, whisper_calls = whisper_calls w @ [c]\<rparr>"

definition queried :: "'x whisper_call \<Rightarrow> ('n, 'x) native \<Rightarrow> ('n, 'x) native" where
  "queried c w = w\<lparr>whisper_calls := whisper_calls w @ [c]\<rparr>"

text \<open>
  The functions of whisper.h that the transcription entry point calls, as parameters.
  \<open>whisper_reset_timings\<close> and \<open>whisper_full\<close> change the library's state; the other
  three read it. \<open>whisper_full\<close> takes its samples as \<^verbatim>\<open>const float *\<close> and so
  returns no samples. \<open>whisper_full_get_segment_text\<close> is \<open>None\<close> for \<^verbatim>\<open>NULL\<close>, which
  the caller tests for; the pointer of \<open>whisper_get_timings\<close> is dereferenced
  unchecked, and is taken to be valid.
\<close>

record ('n, 'x) whisper_h =
  whisper_full_default_params :: "whisper_sampling_strategy \<Rightarrow> 'x whisper_full_params_scheme"
  whisper_reset_timings :: "ptr \<Rightarrow> 'n \<Rightarrow> 'n"
  whisper_full ::
    "ptr \<Rightarrow> 'x whisper_full_params_scheme \<Rightarrow> c_float list \<Rightarrow> c_int \<Rightarrow> 'n \<Rightarrow> c_int \<times> 'n"
  whisper_get_timings :: "ptr \<Rightarrow> 'n \<Rightarrow> whisper_timings"
  whisper_full_n_segments :: "ptr \<Rightarrow> 'n \<Rightarrow> c_int"
  whisper_full_get_segment_text :: "ptr \<Rightarrow> c_int \<Rightarrow> 'n \<Rightarrow> string option"

subsection \<open>Initialisation from a managed stream\<close>

text \<open>
  The managed object handed to \<^verbatim>\<open>initContextFromInputStream\<close>: its state, and the
  methods \<^verbatim>\<open>available()I\<close> and \<^verbatim>\<open>read([BII)I\<close> of its class.
\<close>

record 's stream_object =
  stream_state :: 's
  stream_available :: "'s \<Rightarrow> jint \<times> 's"
  stream_read :: "jbyte list \<Rightarrow> jint \<Rightarrow> jint \<Rightarrow> 's \<Rightarrow> jint \<times> jbyte list \<times> 's"

text \<open>
  Lines 74 to 92 of \<^verbatim>\<open>initContextFromInputStream\<close>: the loader as it is handed to the
  library, that is after the call \<^verbatim>\<open>loader.eof(loader.context)\<close> of line 92, whose
  result is dropped.
\<close>

definition input_stream_loader ::
  "jni_env \<Rightarrow> 's stream_object \<Rightarrow> 's input_stream_context whisper_model_loader" where
  "input_stream_loader jenv input_stream_obj =
     (let e1 = jni GetObjectClass jenv;
          e2 = jni (GetMethodID ''available'' ''()I'') e1;
          e3 = jni (GetMethodID ''read'' ''([BII)I'') e2;
          inp_ctx = \<lparr>offset = 0, env = e3, input_stream = stream_state input_stream_obj,
                      mid_available = stream_available input_stream_obj,
                      mid_read = stream_read input_stream_obj\<rparr>;
          loader = \<lparr>loader_context = inp_ctx, read = inputStreamRead, eof = inputStreamEof,
                     close = inputStreamClose\<rparr>;
          (ignored, inp_ctx1) = eof loader (loader_context loader)
      in loader\<lparr>loader_context := inp_ctx1\<rparr>)"

text \<open>
  \<^verbatim>\<open>Java_com_whispercppdemo_whisper_WhisperLib_00024Companion_initContextFromInputStream\<close>
  (lines 69 to 97). \<^verbatim>\<open>whisper_context_default_params\<close> and
  \<^verbatim>\<open>whisper_init_with_params\<close> are parameters: the latter is given the loader and the
  library's state and yields the context's address (\<open>NULL\<close> on failure), the loader's
  context after the callbacks it made, and the library's new state, unless the process
  is aborted on the way. The result is the handle, the managed runtime, the stream's
  state and the native side afterwards.
\<close>

definition initContextFromInputStream ::
  "'p \<Rightarrow>
   ('s input_stream_context whisper_model_loader \<Rightarrow> 'p \<Rightarrow> 'n \<Rightarrow>
      abort + (ptr \<times> 's input_stream_context \<times> 'n)) \<Rightarrow>
   jni_env \<Rightarrow> ('n, 'x) native \<Rightarrow> 's stream_object \<Rightarrow>
   abort + (jlong \<times> jni_env \<times> 's \<times> ('n, 'x) native)" where
  "initContextFromInputStream whisper_context_default_params whisper_init_with_params
       jenv w input_stream_obj =
     (let loader = input_stream_loader jenv input_stream_obj;
          cparams = whisper_context_default_params
      in case whisper_init_with_params loader cparams (whisper_state w) of
           Inl a \<Rightarrow> Inl a
         | Inr (context, inp_ctx2, n) \<Rightarrow>
             Inr (ucast context, env inp_ctx2, input_stream inp_ctx2,
                  called Call_whisper_init_with_params n w))"

subsection \<open>Initialisation from a packaged asset\<close>

text \<open>
  The functions of \<^verbatim>\<open>android/asset_manager.h\<close> that jni.c calls, as parameters: \<open>'j\<close>
  is the managed asset manager, \<open>'am\<close> the native one, \<open>'a\<close> an open asset.
  \<open>AAssetManager_open\<close> is \<open>None\<close> for \<^verbatim>\<open>NULL\<close>.
\<close>

datatype asset_mode =
  AASSET_MODE_UNKNOWN | AASSET_MODE_RANDOM | AASSET_MODE_STREAMING | AASSET_MODE_BUFFER

record ('j, 'am, 'a) asset_manager_h =
  AAssetManager_fromJava :: "'j \<Rightarrow> 'am"
  AAssetManager_open :: "'am \<Rightarrow> string \<Rightarrow> asset_mode \<Rightarrow> 'a option"
  AAsset_read :: "'a \<Rightarrow> jbyte list \<Rightarrow> size_t \<Rightarrow> c_int \<times> jbyte list \<times> 'a"
  AAsset_getRemainingLength64 :: "'a \<Rightarrow> 64 word"
  AAsset_close :: "'a \<Rightarrow> 'a"

definition asset_read ::
  "('j, 'am, 'a) asset_manager_h \<Rightarrow> 'a \<Rightarrow> jbyte list \<Rightarrow> size_t \<Rightarrow>
     abort + (size_t \<times> jbyte list \<times> 'a)" where
  "asset_read ndk ctx output read_size =
     (let (r, output', ctx') = AAsset_read ndk ctx output read_size
      in Inr (scast r, output', ctx'))"

definition asset_is_eof :: "('j, 'am, 'a) asset_manager_h \<Rightarrow> 'a \<Rightarrow> bool \<times> 'a" where
  "asset_is_eof ndk ctx = (AAsset_getRemainingLength64 ndk ctx \<le>s 0, ctx)"

definition asset_close :: "('j, 'am, 'a) asset_manager_h \<Rightarrow> 'a \<Rightarrow> 'a" where
  "asset_close ndk ctx = AAsset_close ndk ctx"

text \<open>
  \<^verbatim>\<open>whisper_init_from_asset\<close> (lines 111 to 132): the context's address, the managed
  runtime and the native side afterwards.
\<close>

definition whisper_init_from_asset ::
  "('j, 'am, 'a) asset_manager_h \<Rightarrow> 'p \<Rightarrow>
   ('a whisper_model_loader \<Rightarrow> 'p \<Rightarrow> 'n \<Rightarrow> abort + (ptr \<times> 'a \<times> 'n)) \<Rightarrow>
   jni_env \<Rightarrow> ('n, 'x) native \<Rightarrow> 'j \<Rightarrow> string \<Rightarrow>
   abort + (ptr \<times> jni_env \<times> ('n, 'x) native)" where
  "whisper_init_from_asset ndk whisper_context_default_params whisper_init_with_params
       jenv w assetManager asset_path =
     (let e1 = LOGI (''Loading model from asset '' @ [CHR 0x27] @ ''%s'' @ [CHR 0x27, CHR 0x0A])
                 [ArgStr asset_path] jenv;
          asset_manager = AAssetManager_fromJava ndk assetManager
      in case AAssetManager_open ndk asset_manager asset_path AASSET_MODE_STREAMING of
           None \<Rightarrow>
             (let e2 = LOGW (''Failed to open '' @ [CHR 0x27] @ ''%s'' @ [CHR 0x27, CHR 0x0A])
                         [ArgStr asset_path] e1
              in Inr (NULL, e2, w))
         | Some asset \<Rightarrow>
             (let loader = \<lparr>loader_context = asset, read = asset_read ndk,
                             eof = asset_is_eof ndk, close = asset_close ndk\<rparr>
              in (case whisper_init_with_params loader whisper_context_default_params
                         (whisper_state w) of
                    Inl a \<Rightarrow> Inl a
                  | Inr (context, asset', n) \<Rightarrow>
                      Inr (context, e1, called Call_whisper_init_with_params n w))))"

text \<open>
  \<^verbatim>\<open>Java_com_whispercpp_whisper_WhisperLib_00024Companion_initContextFromAsset\<close>
  (lines 134 to 143). A managed string is the characters that \<^verbatim>\<open>GetStringUTFChars\<close>
  delivers for it.
\<close>

definition initContextFromAsset ::
  "('j, 'am, 'a) asset_manager_h \<Rightarrow> 'p \<Rightarrow>
   ('a whisper_model_loader \<Rightarrow> 'p \<Rightarrow> 'n \<Rightarrow> abort + (ptr \<times> 'a \<times> 'n)) \<Rightarrow>
   jni_env \<Rightarrow> ('n, 'x) native \<Rightarrow> 'j \<Rightarrow> string \<Rightarrow>
   abort + (jlong \<times> jni_env \<times> ('n, 'x) native)" where
  "initContextFromAsset ndk whisper_context_default_params whisper_init_with_params
       jenv w assetManager asset_path_str =
     (let asset_path_chars = asset_path_str;
          e1 = jni (GetStringUTFChars asset_path_str) jenv
      in case whisper_init_from_asset ndk whisper_context_default_params
                whisper_init_with_params e1 w assetManager asset_path_chars of
           Inl a \<Rightarrow> Inl a
         | Inr (context, e2, w') \<Rightarrow>
             let e3 = jni (ReleaseStringUTFChars asset_path_str) e2
             in Inr (ucast context, e3, w'))"

subsection \<open>Initialisation from a file\<close>

text \<open>
  \<^verbatim>\<open>Java_com_whispercpp_whisper_WhisperLib_00024Companion_initContext\<close> (lines 145 to
  154). \<^verbatim>\<open>whisper_init_from_file_with_params\<close> is a parameter: the context's address
  and the library's new state.
\<close>

definition initContext ::
  "'p \<Rightarrow> (string \<Rightarrow> 'p \<Rightarrow> 'n \<Rightarrow> ptr \<times> 'n) \<Rightarrow>
   jni_env \<Rightarrow> ('n, 'x) native \<Rightarrow> string \<Rightarrow> jlong \<times> jni_env \<times> ('n, 'x) native" where
  "initContext whisper_context_default_params whisper_init_from_file_with_params
       jenv w model_path_str =
     (let model_path_chars = model_path_str;
          e1 = jni (GetStringUTFChars model_path_str) jenv;
          (context, n) = whisper_init_from_file_with_params model_path_chars
                           whisper_context_default_params (whisper_state w);
          w' = called (Call_whisper_init_from_file_with_params model_path_chars) n w;
          e2 = jni (ReleaseStringUTFChars model_path_str) e1
      in (ucast context, e2, w'))"

subsection \<open>Transcription\<close>

text \<open>
  The float constants of the parameter block, as IEEE 754 binary32 patterns:
  \<^verbatim>\<open>0.0f\<close>, \<^verbatim>\<open>2.4f\<close>, \<^verbatim>\<open>-1.0f\<close> and \<^verbatim>\<open>0.6f\<close>.
\<close>

definition float_0_0 :: c_float where
  "float_0_0 = 0x00000000"

definition float_2_4 :: c_float where
  "float_2_4 = 0x4019999A"

definition float_minus_1_0 :: c_float where
  "float_minus_1_0 = 0xBF800000"

definition float_0_6 :: c_float where
  "float_0_6 = 0x3F19999A"

text \<open>
  Lines 175 to 216 of \<^verbatim>\<open>fullTranscribe\<close>: the parameters start as the library's
  defaults for greedy sampling, and then the fields are assigned one by one.
\<close>

definition fullTranscribe_params ::
  "('n, 'x) whisper_h \<Rightarrow> jint \<Rightarrow> 'x whisper_full_params_scheme" where
  "fullTranscribe_params lib num_threads =
     (whisper_full_default_params lib WHISPER_SAMPLING_GREEDY)
       \<lparr>print_realtime := False,
        print_progress := False,
        print_timestamps := False,
        print_special := False,
        translate := False,
        language := ''en'',
        n_threads := num_threads,
        offset_ms := 0,
        duration_ms := 0,
        no_context := True,
        no_timestamps := False,
        single_segment := False,
        token_timestamps := False,
        max_len := 0,
        max_tokens := 0,
        split_on_word := True,
        audio_ctx := 0,
        n_max_text_ctx := 0,
        debug_mode := False,
        tdrz_enable := False,
        detect_language := False,
        temperature := float_0_0,
        temperature_inc := float_0_0,
        entropy_thold := float_2_4,
        logprob_thold := float_minus_1_0,
        no_speech_thold := float_0_6,
        suppress_blank := True,
        suppress_nst := False,
        greedy_best_of := 1\<rparr>"

text \<open>Lines 236 to 246: the timings, logged.\<close>

definition log_timings :: "whisper_timings \<Rightarrow> jni_env \<Rightarrow> jni_env" where
  "log_timings timings e0 =
     (let e1 = LOGI ''========================================'' [] e0;
          e2 = LOGI ([CHR 0xE2, CHR 0x8F, CHR 0xB1, CHR 0xEF, CHR 0xB8, CHR 0x8F]
                       @ '' WHISPER.CPP DETAILED TIMINGS:'') [] e1;
          e3 = LOGI ''========================================'' [] e2;
          e4 = LOGI ''  Sample time:  %8.2f ms (token sampling)''
                 [ArgFloat (sample_ms timings)] e3;
          e5 = LOGI ''  Encode time:  %8.2f ms (encoder forward pass)''
                 [ArgFloat (encode_ms timings)] e4;
          e6 = LOGI ''  Decode time:  %8.2f ms (decoder forward pass)''
                 [ArgFloat (decode_ms timings)] e5;
          e7 = LOGI ''  Batch time:   %8.2f ms (batch decoding)''
                 [ArgFloat (batchd_ms timings)] e6;
          e8 = LOGI ''  Prompt time:  %8.2f ms (prompt processing)''
                 [ArgFloat (prompt_ms timings)] e7;
          e9 = LOGI ''========================================'' [] e8;
          e10 = LOGI ''  TOTAL:        %8.2f ms''
                  [ArgFloatSum [sample_ms timings, encode_ms timings, decode_ms timings,
                                batchd_ms timings, prompt_ms timings]] e9
      in LOGI ''========================================'' [] e10)"

text \<open>
  Lines 255 to 264, the loop over the segments. The counter \<^verbatim>\<open>i\<close> is a C \<^verbatim>\<open>int\<close>
  that stays below \<^verbatim>\<open>n_segments\<close>, so \<^verbatim>\<open>i++\<close> cannot overflow and the counter is
  an \<open>int\<close> here. \<^verbatim>\<open>full_text\<close> is a C string: \<^verbatim>\<open>realloc\<close> followed by
  \<^verbatim>\<open>strcat\<close> appends the segment's characters (running out of memory is not
  modelled).
\<close>

function segments_loop ::
  "('n, 'x) whisper_h \<Rightarrow> ptr \<Rightarrow> int \<Rightarrow> int \<Rightarrow> string \<times> ('n, 'x) native \<Rightarrow>
     string \<times> ('n, 'x) native" where
  "segments_loop lib context n_segments i (full_text, w) =
     (if i < n_segments then
        let segment_text =
              whisper_full_get_segment_text lib context (word_of_int i) (whisper_state w);
            w' = queried (Call_whisper_full_get_segment_text context (word_of_int i)) w
        in segments_loop lib context n_segments (i + 1)
             (case segment_text of None \<Rightarrow> full_text | Some t \<Rightarrow> full_text @ t, w')
      else (full_text, w))"
  by pat_completeness auto
termination
  by (relation "measure (\<lambda>(lib, context, n_segments, i, acc). nat (n_segments - i))") auto

declare segments_loop.simps [simp del]

text \<open>
  The contents of a managed array after \<^verbatim>\<open>Release<Type>ArrayElements\<close> on the buffer
  \<open>elems\<close>: with \<^verbatim>\<open>JNI_ABORT\<close> the buffer is freed and nothing is copied back.
\<close>

definition released :: "'a list \<Rightarrow> 'a list \<Rightarrow> release_mode \<Rightarrow> 'a list" where
  "released array elems mode = (case mode of JNI_ABORT \<Rightarrow> array | _ \<Rightarrow> elems)"

text \<open>
  \<^verbatim>\<open>Java_com_whispercpp_whisper_WhisperLib_00024Companion_fullTranscribe\<close> (lines 165
  to 271). \<open>audio_data\<close> is the contents of the managed float array. The result is
  the characters of the returned managed string (\<^verbatim>\<open>NewStringUTF\<close> of a C string),
  the managed runtime, the native side and the contents of the managed float array
  afterwards. The buffer of \<^verbatim>\<open>GetFloatArrayElements\<close> holds the contents of the
  array, and \<^verbatim>\<open>whisper_full\<close> cannot write to it. Running out of memory, in
  \<^verbatim>\<open>malloc\<close>, \<^verbatim>\<open>realloc\<close> or a JNI function, is not modelled.
\<close>

definition fullTranscribe ::
  "('n, 'x) whisper_h \<Rightarrow> jni_env \<Rightarrow> ('n, 'x) native \<Rightarrow> jlong \<Rightarrow> jint \<Rightarrow> c_float list \<Rightarrow>
     string \<times> jni_env \<times> ('n, 'x) native \<times> c_float list" where
  "fullTranscribe lib jenv w0 context_ptr num_threads audio_data =
     (let context = (ucast context_ptr :: ptr);
          audio_data_arr = audio_data;
          e1 = jni GetFloatArrayElements jenv;
          audio_data_length = (word_of_nat (length audio_data) :: jsize);
          e2 = jni GetArrayLength e1;
          params = fullTranscribe_params lib num_threads;
          w1 = called (Call_whisper_reset_timings context)
                 (whisper_reset_timings lib context (whisper_state w0)) w0;
          e3 = LOGI ''About to run whisper_full with %d samples, %d threads''
                 [ArgInt (sint audio_data_length), ArgInt (sint num_threads)] e2;
          e4 = LOGI ''Whisper params: realtime=%d, timestamps=%d, context=%d''
                 [ArgInt (of_bool (print_realtime params)),
                  ArgInt (of_bool (print_timestamps params)),
                  ArgInt (of_bool (no_context params))] e3;
          (result, n2) = whisper_full lib context params audio_data_arr audio_data_length
                           (whisper_state w1);
          w2 = called (Call_whisper_full context params audio_data_arr audio_data_length) n2 w1;
          e5 = LOGI ''whisper_full returned: %d'' [ArgInt (sint result)] e4
      in if result \<noteq> 0 then
           let e6 = LOGI ''Failed to run the model, error code: %d'' [ArgInt (sint result)] e5;
               e7 = jni (ReleaseFloatArrayElements JNI_ABORT) e6;
               audio_data' = released audio_data audio_data_arr JNI_ABORT;
               e8 = jni (NewStringUTF []) e7
           in ([], e8, w2, audio_data')
         else
           let e6 = LOGI ''Model ran successfully, printing timings...'' [] e5;
               timings = whisper_get_timings lib context (whisper_state w2);
               w3 = queried (Call_whisper_get_timings context) w2;
               e7 = log_timings timings e6;
               e8 = LOGI ''Timings printed, transcription complete'' [] e7;
               n_segments = whisper_full_n_segments lib context (whisper_state w3);
               w4 = queried (Call_whisper_full_n_segments context) w3;
               (full_text, w5) = segments_loop lib context (sint n_segments) 0 ([], w4);
               e9 = jni (NewStringUTF full_text) e8;
               result_string = full_text;
               e10 = jni (ReleaseFloatArrayElements JNI_ABORT) e9;
               audio_data' = released audio_data audio_data_arr JNI_ABORT
           in (result_string, e10, w5, audio_data'))"

section \<open>Notions used in the statements\<close>

text \<open>
  Line 223: what \<^verbatim>\<open>whisper_full\<close> returns in a given invocation of
  \<^verbatim>\<open>fullTranscribe\<close>, and the state in which it leaves the library.
\<close>

definition whisper_full_outcome ::
  "('n, 'x) whisper_h \<Rightarrow> ('n, 'x) native \<Rightarrow> jlong \<Rightarrow> jint \<Rightarrow> c_float list \<Rightarrow> c_int \<times> 'n" where
  "whisper_full_outcome lib w0 context_ptr num_threads audio_data =
     whisper_full lib (ucast context_ptr) (fullTranscribe_params lib num_threads) audio_data
       (word_of_nat (length audio_data))
       (whisper_reset_timings lib (ucast context_ptr) (whisper_state w0))"

text \<open>The text of segment \<open>i\<close> in state \<open>n\<close>; a \<^verbatim>\<open>NULL\<close> text has no characters.\<close>

definition segment_text_or_empty ::
  "('n, 'x) whisper_h \<Rightarrow> ptr \<Rightarrow> 'n \<Rightarrow> int \<Rightarrow> string" where
  "segment_text_or_empty lib context n i =
     (case whisper_full_get_segment_text lib context (word_of_int i) n of
        None \<Rightarrow> [] | Some t \<Rightarrow> t)"


text \<open>The modes of the \<^verbatim>\<open>ReleaseFloatArrayElements\<close> calls in a list of calls, in order.\<close>

fun float_releases :: "jni_call list \<Rightarrow> release_mode list" where
  "float_releases [] = []"
| "float_releases (ReleaseFloatArrayElements m # cs) = m # float_releases cs"
| "float_releases (_ # cs) = float_releases cs"

text \<open>The line that \<^verbatim>\<open>inputStreamRead\<close> logs on a mismatch (line 46).\<close>

definition insufficient_read_line :: "size_t \<Rightarrow> jint \<Rightarrow> jint \<Rightarrow> log_line" where
  "insufficient_read_line read_size size_to_copy n_read =
     (ANDROID_LOG_INFO, ''JNI'', ''Insufficient Read: Req=%zu, ToCopy=%d, Available=%d'',
      [ArgInt (uint read_size), ArgInt (sint size_to_copy), ArgInt (sint n_read)])"

text \<open>Lines 124 to 129: the loader that \<^verbatim>\<open>whisper_init_from_asset\<close> builds on an open
  asset.\<close>

definition asset_loader :: "('j, 'am, 'a) asset_manager_h \<Rightarrow> 'a \<Rightarrow> 'a whisper_model_loader" where
  "asset_loader ndk asset =
     \<lparr>loader_context = asset, read = asset_read ndk, eof = asset_is_eof ndk,
      close = asset_close ndk\<rparr>"

section \<open>Example inputs\<close>

definition empty_env :: jni_env where
  "empty_env = \<lparr>jni_calls = [], logcat = []\<rparr>"

text \<open>A managed stream whose \<^verbatim>\<open>available()\<close> reports \<open>-1\<close> and whose \<^verbatim>\<open>read\<close> leaves
  the array as it is.\<close>

definition negative_stream :: "unit input_stream_context" where
  "negative_stream =
     \<lparr>offset = 0, env = empty_env, input_stream = (),
      mid_available = (\<lambda>s. (- 1, s)),
      mid_read = (\<lambda>b off len s. (len, b, s))\<rparr>"

text \<open>A managed stream over a list of bytes, in the manner of
  \<^verbatim>\<open>java.io.ByteArrayInputStream\<close>: the state is what is left to read.\<close>

definition list_stream_available :: "jbyte list \<Rightarrow> jint \<times> jbyte list" where
  "list_stream_available s = (word_of_nat (length s), s)"

definition list_stream_read ::
  "jbyte list \<Rightarrow> jint \<Rightarrow> jint \<Rightarrow> jbyte list \<Rightarrow> jint \<times> jbyte list \<times> jbyte list" where
  "list_stream_read b off len s =
     (let n = min (unat len) (length s)
      in (word_of_nat n, take (unat off) b @ take n s @ drop (unat off + n) b, drop n s))"

definition list_stream :: "jbyte list \<Rightarrow> jbyte list input_stream_context" where
  "list_stream bytes =
     \<lparr>offset = 0, env = empty_env, input_stream = bytes,
      mid_available = list_stream_available, mid_read = list_stream_read\<rparr>"

definition list_stream_object :: "jbyte list \<Rightarrow> jbyte list stream_object" where
  "list_stream_object bytes =
     \<lparr>stream_state = bytes, stream_available = list_stream_available,
      stream_read = list_stream_read\<rparr>"

text \<open>A library whose state is the list of segment texts of the last run. A run on no
  samples fails with \<open>-1\<close>; any other run produces two segments.\<close>

definition example_defaults :: whisper_full_params where
  "example_defaults =
     \<lparr>print_realtime = False, print_progress = True, print_timestamps = True,
      print_special = False, translate = False, language = ''auto'', n_threads = 4,
      offset_ms = 0, duration_ms = 0, no_context = True, no_timestamps = False,
      single_segment = False, token_timestamps = False, max_len = 0, max_tokens = 0,
      split_on_word = False, audio_ctx = 0, n_max_text_ctx = 16384, debug_mode = False,
      tdrz_enable = False, detect_language = False, temperature = 0,
      temperature_inc = 0x3E4CCCCD, entropy_thold = float_2_4,
      logprob_thold = float_minus_1_0, no_speech_thold = float_0_6,
      suppress_blank = True, suppress_nst = False, greedy_best_of = 5\<rparr>"

definition example_lib :: "(string list, unit) whisper_h" where
  "example_lib =
     \<lparr>whisper_full_default_params = (\<lambda>strategy. example_defaults),
      whisper_reset_timings = (\<lambda>context n. n),
      whisper_full = (\<lambda>context params samples n_samples n.
         if samples = [] then (- 1, n) else (0, [''hello'', '' world''])),
      whisper_get_timings = (\<lambda>context n.
         \<lparr>sample_ms = 0, encode_ms = 0, decode_ms = 0, batchd_ms = 0, prompt_ms = 0\<rparr>),
      whisper_full_n_segments = (\<lambda>context n. word_of_nat (length n)),
      whisper_full_get_segment_text = (\<lambda>context i n.
         if unat i < length n then Some (n ! unat i) else None)\<rparr>"

definition example_native :: "(string list, unit) native" where
  "example_native = \<lparr>whisper_state = [], whisper_calls = []\<rparr>"

text \<open>An asset manager with no assets, and initialisation functions of a library that
  puts every context at address \<open>0x7000\<close>; the one with a loader reads two bytes first
  and fails when the loader is at its end.\<close>

definition no_assets :: "(unit, unit, unit) asset_manager_h" where
  "no_assets =
     \<lparr>AAssetManager_fromJava = (\<lambda>j. ()),
      AAssetManager_open = (\<lambda>am path mode. None),
      AAsset_read = (\<lambda>a output read_size. (0, output, a)),
      AAsset_getRemainingLength64 = (\<lambda>a. 0),
      AAsset_close = (\<lambda>a. a)\<rparr>"

definition example_init_with_params ::
  "'c whisper_model_loader \<Rightarrow> unit \<Rightarrow> string list \<Rightarrow> abort + (ptr \<times> 'c \<times> string list)" where
  "example_init_with_params loader cparams n =
     (case eof loader (loader_context loader) of
        (True, c1) \<Rightarrow> Inr (NULL, close loader c1, n)
      | (False, c1) \<Rightarrow>
          (case read loader c1 [0, 0] 2 of
             Inl a \<Rightarrow> Inl a
           | Inr (count, bytes, c2) \<Rightarrow> Inr (0x7000, close loader c2, n)))"

definition example_init_from_file :: "string \<Rightarrow> unit \<Rightarrow> string list \<Rightarrow> ptr \<times> string list" where
  "example_init_from_file path cparams n = (if path = [] then (NULL, n) else (0x7000, n))"

text \<open>An asset manager with two assets, one of three bytes and one empty; an open asset
  is what is left to read of it.\<close>

definition example_assets :: "(unit, unit, jbyte list) asset_manager_h" where
  "example_assets =
     \<lparr>AAssetManager_fromJava = (\<lambda>j. ()),
      AAssetManager_open = (\<lambda>am path mode.
         if path = ''models/tiny.bin'' then Some [1, 2, 3]
         else if path = ''models/empty.bin'' then Some []
         else None),
      AAsset_read = (\<lambda>a output read_size.
         let n = min (unat read_size) (length a)
         in (word_of_nat n, take n a @ drop n output, drop n a)),
      AAsset_getRemainingLength64 = (\<lambda>a. word_of_nat (length a)),
      AAsset_close = (\<lambda>a. [])\<rparr>"

text \<open>The initialisation function of a library that never fails: whatever the loader,
  the context is at \<open>0x7000\<close>.\<close>

definition example_init_never_null ::
  "'c whisper_model_loader \<Rightarrow> unit \<Rightarrow> string list \<Rightarrow> abort + (ptr \<times> 'c \<times> string list)" where
  "example_init_never_null loader cparams n = Inr (0x7000, loader_context loader, n)"


section \<open>Conversions between \<^verbatim>\<open>jint\<close> and \<^verbatim>\<open>size_t\<close>\<close>

lemma uint_jint_nonneg:
  fixes x :: jint
  assumes "0 \<le> sint x"
  shows "uint x = sint x"
proof -
  have lt: "sint x < 2 ^ 31" using sint_lt [of x] by simp
  have "uint x = take_bit 32 (sint x)"
    using uint_sint [of x] by simp
  also have "\<dots> = sint x"
    using assms lt by (simp add: take_bit_int_eq_self)
  finally show ?thesis .
qed

lemma sint_jint_small:
  fixes x :: jint
  assumes "uint x < 2 ^ 31"
  shows "sint x = uint x"
proof -
  have "sint x = signed_take_bit 31 (uint x)"
    using sint_uint [of x] by simp
  also have "\<dots> = uint x"
  proof (rule signed_take_bit_int_eq_self)
    have "- (2 ^ 31) \<le> (0 :: int)" by simp
    also have "0 \<le> uint x" by simp
    finally show "- (2 ^ 31) \<le> uint x" .
    show "uint x < 2 ^ 31" by (fact assms)
  qed
  finally show ?thesis .
qed

lemma uint_scast_nonneg:
  fixes x :: jint
  assumes "0 \<le> sint x"
  shows "uint (scast x :: size_t) = sint x"
proof -
  have lt: "sint x < 2 ^ 31" using sint_lt [of x] by simp
  have "uint (scast x :: size_t) = take_bit 64 (sint x)"
    by (subst scast_eq, subst uint_word_of_int_eq) simp
  also have "\<dots> = sint x"
    using assms lt by (simp add: take_bit_int_eq_self)
  finally show ?thesis .
qed

lemma uint_ucast_le:
  fixes r :: size_t
  shows "uint (ucast r :: jint) \<le> uint r"
  by (simp add: unsigned_ucast_eq take_bit_int_less_eq_self_iff)

text \<open>A count that is not negative is at most the requested size.\<close>

lemma clamp_read_size_le:
  assumes "\<not> clamp_read_size r a <s 0"
  shows "(scast (clamp_read_size r a) :: size_t) \<le> r"
proof (cases "r < scast a")
  case True
  with assms have "0 \<le> sint (ucast r :: jint)"
    by (simp add: clamp_read_size_def word_sless_alt)
  then have "uint (scast (ucast r :: jint) :: size_t) = uint (ucast r :: jint)"
    by (simp add: uint_scast_nonneg uint_jint_nonneg)
  with uint_ucast_le [of r] True show ?thesis
    by (simp add: word_le_def clamp_read_size_def)
next
  case False
  then show ?thesis by (simp add: clamp_read_size_def)
qed

text \<open>When the available count is not negative, line 39 computes the minimum.\<close>

lemma clamp_read_size_min:
  fixes r :: size_t and a :: jint
  assumes "0 \<le>s a"
  shows "sint (clamp_read_size r a) = min (uint r) (sint a)"
proof -
  from assms have nn: "0 \<le> sint a" by (simp add: word_sle_eq)
  have lt: "sint a < 2 ^ 31" using sint_lt [of a] by simp
  have sa: "uint (scast a :: size_t) = sint a" using nn by (rule uint_scast_nonneg)
  show ?thesis
  proof (cases "r < scast a")
    case True
    then have less: "uint r < sint a" using sa by (simp add: word_less_def)
    then have "uint r < 2 ^ 32" using lt by simp
    then have "uint (ucast r :: jint) = uint r"
      by (simp add: unsigned_ucast_eq take_bit_int_eq_self)
    moreover from this less lt have "sint (ucast r :: jint) = uint (ucast r :: jint)"
      by (intro sint_jint_small) simp
    ultimately show ?thesis using True less by (simp add: clamp_read_size_def)
  next
    case False
    then have "sint a \<le> uint r" using sa by (simp add: word_less_def)
    with False show ?thesis by (simp add: clamp_read_size_def)
  qed
qed

lemma clamp_read_size_nonneg:
  fixes r :: size_t and a :: jint
  assumes "0 \<le>s a"
  shows "\<not> clamp_read_size r a <s 0"
  using clamp_read_size_min [OF assms, of r] assms uint_nonnegative [of r]
  by (simp add: word_sless_alt word_sle_eq min_def)

lemma clamp_read_size_unat:
  fixes r :: size_t and a :: jint
  assumes "0 \<le>s a"
  shows "unat (clamp_read_size r a) = min (unat r) (nat (sint a))"
    and "unat (scast (clamp_read_size r a) :: size_t) = min (unat r) (nat (sint a))"
proof -
  let ?c = "clamp_read_size r a"
  have s: "sint ?c = min (uint r) (sint a)" using assms by (rule clamp_read_size_min)
  from assms have "0 \<le> sint a" by (simp add: word_sle_eq)
  with s have nn: "0 \<le> sint ?c" by simp
  have "nat (min u v) = min (nat u) (nat v)" for u v :: int
    by (simp add: min_def nat_mono)
  then have "nat (min (uint r) (sint a)) = min (nat (uint r)) (nat (sint a))" .
  then have m: "nat (min (uint r) (sint a)) = min (unat r) (nat (sint a))"
    by (simp only: unat_eq_nat_uint)
  have "unat ?c = nat (uint ?c)" by (simp only: unat_eq_nat_uint)
  also have "\<dots> = nat (sint ?c)" using nn by (simp add: uint_jint_nonneg)
  finally show "unat ?c = min (unat r) (nat (sint a))" using s m by simp
  have "unat (scast ?c :: size_t) = nat (uint (scast ?c :: size_t))"
    by (simp only: unat_eq_nat_uint)
  also have "\<dots> = nat (sint ?c)" using nn by (simp add: uint_scast_nonneg)
  finally show "unat (scast ?c :: size_t) = min (unat r) (nat (sint a))" using s m by simp
qed

section \<open>The streaming adapter\<close>

text \<open>What a returning call of \<^verbatim>\<open>inputStreamRead\<close> returns.\<close>

lemma inputStreamRead_Inr:
  assumes "inputStreamRead isc output read_size = Inr (n, output', isc')"
  shows "\<not> clamp_read_size read_size (fst (mid_available isc (input_stream isc))) <s 0
       \<and> n = scast (clamp_read_size read_size (fst (mid_available isc (input_stream isc))))"
  using assms unfolding inputStreamRead_def Let_def
  by (auto split: prod.splits if_splits option.splits)

text \<open>A negative \<^verbatim>\<open>size_to_copy\<close> ends the call at \<^verbatim>\<open>NewByteArray\<close>.\<close>

lemma inputStreamRead_negative_length:
  assumes "clamp_read_size read_size (fst (mid_available isc (input_stream isc))) <s 0"
  shows "inputStreamRead isc output read_size =
           Inl (NegativeArrayLength
                  (clamp_read_size read_size (fst (mid_available isc (input_stream isc)))))"
  using assms by (simp add: inputStreamRead_def Let_def split_beta)

text \<open>
  With \<open>-1\<close> available and \<open>2 ^ 31\<close> bytes requested, \<^verbatim>\<open>size_to_copy\<close> is the least
  \<^verbatim>\<open>jint\<close>. Read as a \<^verbatim>\<open>size_t\<close> it is larger than the request, but the call ends
  before anything is returned.
\<close>

lemma inputStreamRead_negative_length_example:
  "isl (inputStreamRead negative_stream [7, 7, 7, 7] 0x80000000)
   \<and> projl (inputStreamRead negative_stream [7, 7, 7, 7] 0x80000000)
       = NegativeArrayLength (- 0x80000000)
   \<and> (0x80000000 :: size_t) < scast (clamp_read_size 0x80000000 (- 1))"
  by code_simp

text \<open>
  Claim C4, as the code has it. When the managed stream reports an available count \<open>a\<close>
  that is not negative, a read request of size \<open>r\<close> copies exactly \<open>min r a\<close> bytes of
  the array that the stream's \<^verbatim>\<open>read\<close> filled into the front of the output buffer,
  returns \<open>min r a\<close> and advances the offset by as much. The count \<open>n_read\<close> that
  \<^verbatim>\<open>read\<close> delivers is arbitrary here: a mismatch adds one line to the log and
  changes nothing else. (A managed array keeps its length, and the output buffer has
  room for the bytes.)
\<close>

theorem inputStreamRead_copies_min:
  fixes r :: size_t
  assumes avail: "mid_available isc (input_stream isc) = (a, s1)"
    and nonneg: "0 \<le>s a"
    and k: "k = min (unat r) (nat (sint a))"
    and rd: "mid_read isc (replicate k 0) 0 (word_of_nat k) s1 = (n_read, elems, s2)"
    and len: "length elems = k"
    and out: "k \<le> length output"
  shows "\<exists>n output' isc'.
           inputStreamRead isc output r = Inr (n, output', isc')
         \<and> unat n = k
         \<and> output' = take k elems @ drop k output
         \<and> offset isc' = offset isc + n
         \<and> input_stream isc' = s2
         \<and> logcat (env isc') = logcat (env isc) @
               (if k = unat r \<and> n_read = word_of_nat k then []
                else [insufficient_read_line r (word_of_nat k) n_read])"
proof -
  let ?c = "clamp_read_size r a"
  have c1: "unat ?c = k" and c2: "unat (scast ?c :: size_t) = k"
    using clamp_read_size_unat [OF nonneg, of r] k by simp_all
  have c3: "\<not> ?c <s 0" using nonneg by (rule clamp_read_size_nonneg)
  have "word_of_nat (unat ?c) = ?c" by simp
  then have c4: "word_of_nat k = ?c" using c1 by simp
  have c5: "(scast ?c = r) = (k = unat r)" using c2 by (metis word_unat_eq_iff)
  have mc: "memcpy output elems (scast ?c) = Some (take k elems @ drop k output)"
    using c2 len out by (simp add: memcpy_def)
  show ?thesis
    unfolding inputStreamRead_def Let_def
    using avail rd c1 c2 c3 mc c5
    by (auto simp: c4 jni_def LOGI_def TAG_def insufficient_read_line_def)
qed

text \<open>
  A stream with two bytes left, asked for three: two bytes are copied, two is returned,
  and the mismatch with the request is logged.
\<close>

theorem inputStreamRead_copies_min_witness:
  "\<not> isl (inputStreamRead (list_stream [1, 2]) [7, 7, 7, 7] 3)
   \<and> fst (projr (inputStreamRead (list_stream [1, 2]) [7, 7, 7, 7] 3)) = 2
   \<and> fst (snd (projr (inputStreamRead (list_stream [1, 2]) [7, 7, 7, 7] 3))) = [1, 2, 7, 7]"
proof -
  let ?isc = "list_stream [1, 2]"
  have avail: "mid_available ?isc (input_stream ?isc) = (2, [1, 2])"
    by code_simp
  have nonneg: "0 \<le>s (2 :: jint)"
    by code_simp
  have k: "(2 :: nat) = min (unat (3 :: size_t)) (nat (sint (2 :: jint)))"
    by code_simp
  have rd: "mid_read ?isc (replicate 2 0) 0 (word_of_nat 2) [1, 2] = (2, [1, 2], [])"
    by code_simp
  have len: "length [1 :: jbyte, 2] = 2"
    by simp
  have out: "2 \<le> length [7 :: jbyte, 7, 7, 7]"
    by simp
  from inputStreamRead_copies_min [OF avail nonneg k rd len out]
  obtain n output' isc' where
    "inputStreamRead ?isc [7, 7, 7, 7] 3 = Inr (n, output', isc')" "unat n = 2"
    "output' = take 2 [1, 2] @ drop 2 [7, 7, 7, 7]"
    by blast
  moreover have "n = 2"
  proof -
    have "word_of_nat (unat n) = n" by simp
    with \<open>unat n = 2\<close> show ?thesis by simp
  qed
  ultimately show ?thesis by simp
qed

text \<open>
  Claim C4 as it is stated fails when the stream reports a negative count. With \<open>-1\<close>
  available and three bytes requested, the comparison of line 39 is unsigned, so the
  request is not clamped: three bytes are copied and three is returned, which is not
  the minimum of \<open>3\<close> and \<open>-1\<close>.
\<close>

theorem inputStreamRead_negative_available_counterexample:
  "fst (mid_available negative_stream (input_stream negative_stream)) = - 1
   \<and> \<not> isl (inputStreamRead negative_stream [7, 7, 7, 7] 3)
   \<and> fst (projr (inputStreamRead negative_stream [7, 7, 7, 7] 3)) = 3
   \<and> fst (snd (projr (inputStreamRead negative_stream [7, 7, 7, 7] 3))) = [0, 0, 0, 7]
   \<and> uint (fst (projr (inputStreamRead negative_stream [7, 7, 7, 7] 3)))
         \<noteq> min (uint (3 :: size_t)) (sint (- 1 :: jint))"
  by code_simp

text \<open>
  Claim C5. Whatever the managed stream reports as available, negative and large
  counts included, the count that \<^verbatim>\<open>inputStreamRead\<close> returns is at most the
  requested size. (When line 39 yields a negative \<^verbatim>\<open>size_to_copy\<close>, the call of
  \<^verbatim>\<open>NewByteArray\<close> with that length ends the process, and nothing is returned.)
\<close>

theorem inputStreamRead_count_le_request:
  "inputStreamRead isc output read_size = Inr (n, output', isc') \<Longrightarrow> n \<le> read_size"
  using inputStreamRead_Inr clamp_read_size_le by blast

text \<open>With \<open>-1\<close> available and three bytes requested, three is returned.\<close>

theorem inputStreamRead_count_le_request_witness:
  "\<not> isl (inputStreamRead negative_stream [7, 7, 7, 7] 3)
   \<and> fst (projr (inputStreamRead negative_stream [7, 7, 7, 7] 3)) \<le> 3"
proof -
  have r: "\<not> isl (inputStreamRead negative_stream [7, 7, 7, 7] 3)"
    by code_simp
  then obtain n output' isc' where
    eq: "inputStreamRead negative_stream [7, 7, 7, 7] 3 = Inr (n, output', isc')"
    by (metis prod_cases3 sum.collapse(2))
  from inputStreamRead_count_le_request [OF eq] have "n \<le> 3" .
  with r eq show ?thesis by simp
qed

text \<open>
  Claim C6. \<^verbatim>\<open>inputStreamEof\<close> returns true exactly when the available count that
  the managed stream reports is zero or negative.
\<close>

theorem inputStreamEof_iff_available_le_0:
  "fst (inputStreamEof isc) \<longleftrightarrow> sint (fst (mid_available isc (input_stream isc))) \<le> 0"
  by (simp add: inputStreamEof_def Let_def word_sle_eq split: prod.splits)

text \<open>A stream with two bytes left is not at its end; one with \<open>-1\<close> available is.\<close>

theorem inputStreamEof_iff_available_le_0_witness:
  "\<not> fst (inputStreamEof (list_stream [1, 2])) \<and> fst (inputStreamEof negative_stream)"
proof -
  have "\<not> sint (fst (mid_available (list_stream [1, 2]) (input_stream (list_stream [1, 2])))) \<le> 0"
    by code_simp
  moreover have "sint (fst (mid_available negative_stream (input_stream negative_stream))) \<le> 0"
    by code_simp
  ultimately show ?thesis
    using inputStreamEof_iff_available_le_0 [of "list_stream [1, 2]"]
      inputStreamEof_iff_available_le_0 [of negative_stream]
    by simp
qed

text \<open>
  Claim C10. \<^verbatim>\<open>inputStreamClose\<close> does nothing: the adapter's context is returned as it
  was, so no call is added to the calls made through \<^verbatim>\<open>JNIEnv\<close> (none on the managed
  stream in particular), and the stream's state and the byte offset are unchanged. It
  is the \<^verbatim>\<open>close\<close> callback of the loader that \<^verbatim>\<open>initContextFromInputStream\<close> hands
  to the library, so the loader does not close the managed stream.
\<close>

theorem inputStreamClose_noop:
  "inputStreamClose isc = isc
   \<and> jni_calls (env (inputStreamClose isc)) = jni_calls (env isc)
   \<and> input_stream (inputStreamClose isc) = input_stream isc
   \<and> offset (inputStreamClose isc) = offset isc
   \<and> close (input_stream_loader jenv input_stream_obj) isc = isc"
  by (simp add: inputStreamClose_def input_stream_loader_def Let_def split_beta)

theorem inputStreamClose_noop_witness:
  "jni_calls (env (inputStreamClose (list_stream [1, 2]))) = []
   \<and> input_stream (inputStreamClose (list_stream [1, 2])) = [1, 2]
   \<and> offset (inputStreamClose (list_stream [1, 2])) = 0
   \<and> input_stream (close (input_stream_loader empty_env (list_stream_object [1, 2]))
                        (list_stream [1, 2])) = [1, 2]"
  using inputStreamClose_noop [of "list_stream [1, 2]" empty_env "list_stream_object [1, 2]"]
  by (simp add: list_stream_def empty_env_def)

section \<open>Initialisation\<close>

lemma whisper_init_from_asset_open_fails:
  assumes "AAssetManager_open ndk (AAssetManager_fromJava ndk assetManager) asset_path
             AASSET_MODE_STREAMING = None"
  shows "whisper_init_from_asset ndk cdp init jenv w assetManager asset_path =
           Inr (NULL,
                LOGW (''Failed to open '' @ [CHR 0x27] @ ''%s'' @ [CHR 0x27, CHR 0x0A])
                  [ArgStr asset_path]
                  (LOGI (''Loading model from asset '' @ [CHR 0x27] @ ''%s'' @ [CHR 0x27, CHR 0x0A])
                     [ArgStr asset_path] jenv), w)"
  using assms by (simp add: whisper_init_from_asset_def Let_def)

text \<open>
  Claim C7. When \<^verbatim>\<open>AAssetManager_open\<close> returns \<^verbatim>\<open>NULL\<close> for the asset path,
  \<^verbatim>\<open>initContextFromAsset\<close> returns the handle \<open>0\<close>. It has then logged the line
  that announces the loading and the warning \<^verbatim>\<open>Failed to open '%s'\<close>, and it has
  made no call into the library: the native side is as before, whatever the library's
  initialisation function \<open>init\<close> would have done.
\<close>

theorem initContextFromAsset_open_fails:
  assumes "AAssetManager_open ndk (AAssetManager_fromJava ndk assetManager) asset_path
             AASSET_MODE_STREAMING = None"
  shows "initContextFromAsset ndk cdp init jenv w assetManager asset_path =
           Inr (0,
                jenv\<lparr>jni_calls := jni_calls jenv @
                        [GetStringUTFChars asset_path, ReleaseStringUTFChars asset_path],
                      logcat := logcat jenv @
                        [(ANDROID_LOG_INFO, ''JNI'',
                          ''Loading model from asset '' @ [CHR 0x27] @ ''%s'' @ [CHR 0x27, CHR 0x0A],
                          [ArgStr asset_path]),
                         (ANDROID_LOG_WARN, ''JNI'',
                          ''Failed to open '' @ [CHR 0x27] @ ''%s'' @ [CHR 0x27, CHR 0x0A],
                          [ArgStr asset_path])]\<rparr>,
                w)"
  using assms
  by (simp add: initContextFromAsset_def whisper_init_from_asset_open_fails Let_def NULL_def
      jni_def LOGI_def LOGW_def TAG_def)

text \<open>With no assets at all, the asset \<^verbatim>\<open>models/tiny.bin\<close> cannot be opened.\<close>

theorem initContextFromAsset_open_fails_witness:
  "map_sum id fst
     (initContextFromAsset no_assets () example_init_with_params empty_env example_native ()
        ''models/tiny.bin'') = Inr 0
   \<and> map_sum id (\<lambda>r. snd (snd r))
     (initContextFromAsset no_assets () example_init_with_params empty_env example_native ()
        ''models/tiny.bin'') = Inr example_native"
proof -
  have h: "AAssetManager_open no_assets (AAssetManager_fromJava no_assets ()) ''models/tiny.bin''
             AASSET_MODE_STREAMING = (None :: unit option)"
    by (simp add: no_assets_def)
  show ?thesis
    using initContextFromAsset_open_fails
      [OF h, of "()" example_init_with_params empty_env example_native]
    by simp
qed

text \<open>
  Claim C8 as it is stated fails for \<^verbatim>\<open>initContextFromAsset\<close>. With a library whose
  initialisation never produces \<^verbatim>\<open>NULL\<close> and an asset that cannot be opened, the
  handle is \<open>0\<close> although the library produced no \<^verbatim>\<open>NULL\<close> context: its
  initialisation is not called at all (line 121 returns first).
\<close>

theorem initContextFromAsset_zero_handle_counterexample:
  "AAssetManager_open no_assets (AAssetManager_fromJava no_assets ()) ''models/tiny.bin''
     AASSET_MODE_STREAMING = None
   \<and> map_sum id fst (example_init_never_null (asset_loader no_assets ()) () []) = Inr 0x7000
   \<and> \<not> isl (initContextFromAsset no_assets () example_init_never_null empty_env
               example_native () ''models/tiny.bin'')
   \<and> fst (projr (initContextFromAsset no_assets () example_init_never_null empty_env
                    example_native () ''models/tiny.bin'')) = 0
   \<and> whisper_calls (snd (snd (projr (initContextFromAsset no_assets () example_init_never_null
                    empty_env example_native () ''models/tiny.bin'')))) = []"
  by code_simp

text \<open>
  Claim C8, as the code has it. \<^verbatim>\<open>initContext\<close> returns, as the handle, the address
  of the context that \<^verbatim>\<open>whisper_init_from_file_with_params\<close> produced, and
  \<^verbatim>\<open>initContextFromInputStream\<close> that of the context that
  \<^verbatim>\<open>whisper_init_with_params\<close> produced on the stream loader; the handle is \<open>0\<close>
  exactly when that context is \<^verbatim>\<open>NULL\<close>. \<^verbatim>\<open>initContextFromAsset\<close> does the same
  with \<^verbatim>\<open>whisper_init_with_params\<close> on the asset loader when the asset can be
  opened. When it cannot, the handle is \<open>0\<close> and the native side is as before. (An
  abort under \<^verbatim>\<open>whisper_init_with_params\<close> is passed on.)
\<close>

theorem init_entry_points_return_library_context:
  "fst (initContext cdp init_file jenv w model_path) =
     ucast (fst (init_file model_path cdp (whisper_state w)))
   \<and> (fst (initContext cdp init_file jenv w model_path) = 0 \<longleftrightarrow>
        fst (init_file model_path cdp (whisper_state w)) = NULL)
   \<and> map_sum id fst (initContextFromInputStream cdp init_stream jenv w input_stream_obj) =
       map_sum id (\<lambda>r. ucast (fst r))
         (init_stream (input_stream_loader jenv input_stream_obj) cdp (whisper_state w))
   \<and> map_sum id (\<lambda>r. fst r = 0)
         (initContextFromInputStream cdp init_stream jenv w input_stream_obj) =
       map_sum id (\<lambda>r. fst r = NULL)
         (init_stream (input_stream_loader jenv input_stream_obj) cdp (whisper_state w))
   \<and> (case AAssetManager_open ndk (AAssetManager_fromJava ndk assetManager) asset_path
               AASSET_MODE_STREAMING of
         Some asset \<Rightarrow>
           map_sum id fst
             (initContextFromAsset ndk cdp init_asset jenv w assetManager asset_path) =
           map_sum id (\<lambda>r. ucast (fst r))
             (init_asset (asset_loader ndk asset) cdp (whisper_state w))
           \<and> map_sum id (\<lambda>r. fst r = 0)
               (initContextFromAsset ndk cdp init_asset jenv w assetManager asset_path) =
             map_sum id (\<lambda>r. fst r = NULL)
               (init_asset (asset_loader ndk asset) cdp (whisper_state w))
       | None \<Rightarrow>
           map_sum id fst
             (initContextFromAsset ndk cdp init_asset jenv w assetManager asset_path) = Inr 0
           \<and> map_sum id (\<lambda>r. snd (snd r))
               (initContextFromAsset ndk cdp init_asset jenv w assetManager asset_path) = Inr w)"
proof -
  have hfile: "fst (initContext cdp init_file jenv w model_path) =
      ucast (fst (init_file model_path cdp (whisper_state w)))"
    by (simp add: initContext_def Let_def split_beta)
  have hstream: "map_sum id fst
        (initContextFromInputStream cdp init_stream jenv w input_stream_obj) =
      map_sum id (\<lambda>r. ucast (fst r))
        (init_stream (input_stream_loader jenv input_stream_obj) cdp (whisper_state w))"
    "map_sum id (\<lambda>r. fst r = 0)
        (initContextFromInputStream cdp init_stream jenv w input_stream_obj) =
      map_sum id (\<lambda>r. fst r = NULL)
        (init_stream (input_stream_loader jenv input_stream_obj) cdp (whisper_state w))"
    by (simp_all add: initContextFromInputStream_def Let_def NULL_def split_beta
        split: sum.splits)
  have hasset: "case AAssetManager_open ndk (AAssetManager_fromJava ndk assetManager) asset_path
               AASSET_MODE_STREAMING of
         Some asset \<Rightarrow>
           map_sum id fst
             (initContextFromAsset ndk cdp init_asset jenv w assetManager asset_path) =
           map_sum id (\<lambda>r. ucast (fst r))
             (init_asset (asset_loader ndk asset) cdp (whisper_state w))
           \<and> map_sum id (\<lambda>r. fst r = 0)
               (initContextFromAsset ndk cdp init_asset jenv w assetManager asset_path) =
             map_sum id (\<lambda>r. fst r = NULL)
               (init_asset (asset_loader ndk asset) cdp (whisper_state w))
       | None \<Rightarrow>
           map_sum id fst
             (initContextFromAsset ndk cdp init_asset jenv w assetManager asset_path) = Inr 0
           \<and> map_sum id (\<lambda>r. snd (snd r))
               (initContextFromAsset ndk cdp init_asset jenv w assetManager asset_path) = Inr w"
    by (simp add: initContextFromAsset_def whisper_init_from_asset_def asset_loader_def
        Let_def NULL_def split_beta split: option.splits sum.splits)
  from hfile hstream hasset show ?thesis
    by (simp add: NULL_def)
qed

text \<open>
  A path and the empty path; a stream of three bytes and an empty one; an asset of three
  bytes, an empty one and one that is not there.
\<close>

theorem init_entry_points_return_library_context_witness:
  "fst (initContext () example_init_from_file empty_env example_native ''ggml-tiny.bin'')
     = 0x7000
   \<and> fst (initContext () example_init_from_file empty_env example_native []) = 0
   \<and> map_sum id fst
       (initContextFromInputStream () example_init_with_params empty_env example_native
          (list_stream_object [1, 2, 3])) = Inr 0x7000
   \<and> map_sum id fst
       (initContextFromInputStream () example_init_with_params empty_env example_native
          (list_stream_object [])) = Inr 0
   \<and> map_sum id fst
       (initContextFromAsset example_assets () example_init_with_params empty_env
          example_native () ''models/tiny.bin'') = Inr 0x7000
   \<and> map_sum id fst
       (initContextFromAsset example_assets () example_init_with_params empty_env
          example_native () ''models/empty.bin'') = Inr 0
   \<and> map_sum id fst
       (initContextFromAsset example_assets () example_init_with_params empty_env
          example_native () ''models/none.bin'') = Inr 0"
proof -
  have f1: "ucast (fst (example_init_from_file ''ggml-tiny.bin'' () (whisper_state example_native)))
          = (0x7000 :: jlong)"
    by code_simp
  have f2: "ucast (fst (example_init_from_file [] () (whisper_state example_native)))
          = (0 :: jlong)"
    by code_simp
  have s1: "map_sum id (\<lambda>r. ucast (fst r))
      (example_init_with_params (input_stream_loader empty_env (list_stream_object [1, 2, 3])) ()
         (whisper_state example_native)) = (Inr 0x7000 :: abort + jlong)"
    by code_simp
  have s2: "map_sum id (\<lambda>r. ucast (fst r))
      (example_init_with_params (input_stream_loader empty_env (list_stream_object [])) ()
         (whisper_state example_native)) = (Inr 0 :: abort + jlong)"
    by code_simp
  have o1: "AAssetManager_open example_assets () ''models/tiny.bin'' AASSET_MODE_STREAMING
      = Some [1, 2, 3]"
    by code_simp
  have o2: "AAssetManager_open example_assets () ''models/empty.bin'' AASSET_MODE_STREAMING
      = Some []"
    by code_simp
  have o3: "AAssetManager_open example_assets () ''models/none.bin'' AASSET_MODE_STREAMING
      = None"
    by code_simp
  have a1: "map_sum id (\<lambda>r. ucast (fst r))
      (example_init_with_params (asset_loader example_assets [1, 2, 3]) ()
         (whisper_state example_native)) = (Inr 0x7000 :: abort + jlong)"
    by code_simp
  have a2: "map_sum id (\<lambda>r. ucast (fst r))
      (example_init_with_params (asset_loader example_assets []) ()
         (whisper_state example_native)) = (Inr 0 :: abort + jlong)"
    by code_simp
  show ?thesis
    using f1 f2 s1 s2 a1 a2
      init_entry_points_return_library_context
      [where cdp = "()" and init_file = example_init_from_file and jenv = empty_env
         and w = example_native and model_path = "''ggml-tiny.bin''"
         and init_stream = example_init_with_params
         and input_stream_obj = "list_stream_object [1, 2, 3]"
         and ndk = example_assets and assetManager = "()"
         and asset_path = "''models/tiny.bin''" and init_asset = example_init_with_params]
      init_entry_points_return_library_context
      [where cdp = "()" and init_file = example_init_from_file and jenv = empty_env
         and w = example_native and model_path = "[]"
         and init_stream = example_init_with_params
         and input_stream_obj = "list_stream_object []"
         and ndk = example_assets and assetManager = "()"
         and asset_path = "''models/empty.bin''" and init_asset = example_init_with_params]
      init_entry_points_return_library_context
      [where cdp = "()" and init_file = example_init_from_file and jenv = empty_env
         and w = example_native and model_path = "[]"
         and init_stream = example_init_with_params
         and input_stream_obj = "list_stream_object []"
         and ndk = example_assets and assetManager = "()"
         and asset_path = "''models/none.bin''" and init_asset = example_init_with_params]
    by (simp add: o1 o2 o3)
qed

section \<open>Transcription\<close>

lemma jni_calls_simps [simp]:
  "jni_calls (jni c e) = jni_calls e @ [c]"
  "jni_calls (LOGI fmt args e) = jni_calls e"
  "jni_calls (LOGW fmt args e) = jni_calls e"
  "jni_calls (log_timings t e) = jni_calls e"
  by (simp_all add: jni_def LOGI_def LOGW_def log_timings_def Let_def)

lemma native_simps [simp]:
  "whisper_state (called c n w) = n"
  "whisper_calls (called c n w) = whisper_calls w @ [c]"
  "whisper_state (queried c w) = whisper_state w"
  "whisper_calls (queried c w) = whisper_calls w @ [c]"
  by (simp_all add: called_def queried_def)

text \<open>The loop appends the texts of the segments \<open>i\<close> to \<open>n - 1\<close>, in this order.\<close>

lemma segments_loop_text:
  "fst (segments_loop lib ctx n i (full_text, w)) =
     full_text @ concat (map (segment_text_or_empty lib ctx (whisper_state w)) [i..n - 1])"
proof (induction lib ctx n i "(full_text, w)" arbitrary: full_text w rule: segments_loop.induct)
  case (1 lib ctx n_segments i full_text w)
  show ?case
  proof (cases "i < n_segments")
    case True
    then have u: "[i..n_segments - 1] = i # [i + 1..n_segments - 1]"
      by (simp add: upto_rec1)
    show ?thesis
      using True 1 [OF True refl refl]
      by (subst segments_loop.simps)
         (simp add: u Let_def segment_text_or_empty_def split: option.splits)
  next
    case False
    then show ?thesis by (subst segments_loop.simps) simp
  qed
qed




lemma float_releases_append:
  "float_releases (xs @ ys) = float_releases xs @ float_releases ys"
  by (induction xs rule: float_releases.induct) simp_all

text \<open>The four parts of the result of \<^verbatim>\<open>fullTranscribe\<close>.\<close>

lemma fullTranscribe_text:
  "fst (fullTranscribe lib jenv w0 context_ptr num_threads audio_data) =
     (if fst (whisper_full_outcome lib w0 context_ptr num_threads audio_data) \<noteq> 0 then []
      else concat (map (segment_text_or_empty lib (ucast context_ptr)
                          (snd (whisper_full_outcome lib w0 context_ptr num_threads audio_data)))
             [0..sint (whisper_full_n_segments lib (ucast context_ptr)
                         (snd (whisper_full_outcome lib w0 context_ptr num_threads audio_data))) - 1]))"
  by (simp add: fullTranscribe_def whisper_full_outcome_def Let_def split_beta
      segments_loop_text)

lemma fullTranscribe_jni_calls:
  "jni_calls (fst (snd (fullTranscribe lib jenv w0 context_ptr num_threads audio_data))) =
     jni_calls jenv @ [GetFloatArrayElements, GetArrayLength] @
     (if fst (whisper_full_outcome lib w0 context_ptr num_threads audio_data) \<noteq> 0
      then [ReleaseFloatArrayElements JNI_ABORT, NewStringUTF []]
      else [NewStringUTF (fst (fullTranscribe lib jenv w0 context_ptr num_threads audio_data)),
            ReleaseFloatArrayElements JNI_ABORT])"
  by (simp add: fullTranscribe_def whisper_full_outcome_def Let_def split_beta)

lemma fullTranscribe_audio:
  "snd (snd (snd (fullTranscribe lib jenv w0 context_ptr num_threads audio_data))) = audio_data"
  by (simp add: fullTranscribe_def Let_def released_def split_beta)


text \<open>
  Claim C1. For every context handle, thread count and audio array: when
  \<^verbatim>\<open>whisper_full\<close> returns a value other than \<open>0\<close>, \<^verbatim>\<open>fullTranscribe\<close> returns the
  empty string, made by \<^verbatim>\<open>NewStringUTF("")\<close> as the last JNI call of the invocation.
\<close>

theorem fullTranscribe_failure_returns_empty_string:
  assumes "fst (whisper_full_outcome lib w0 context_ptr num_threads audio_data) \<noteq> 0"
  shows "fst (fullTranscribe lib jenv w0 context_ptr num_threads audio_data) = []
       \<and> last (jni_calls (fst (snd (fullTranscribe lib jenv w0 context_ptr num_threads
                                      audio_data)))) = NewStringUTF []"
  using assms by (simp add: fullTranscribe_text fullTranscribe_jni_calls)

text \<open>The example library fails on an array without samples.\<close>

theorem fullTranscribe_failure_returns_empty_string_witness:
  "fst (whisper_full_outcome example_lib example_native 0x7000 4 []) = - 1
   \<and> fst (fullTranscribe example_lib empty_env example_native 0x7000 4 []) = []"
proof -
  have r: "fst (whisper_full_outcome example_lib example_native 0x7000 4 []) = - 1"
    by code_simp
  then have h: "fst (whisper_full_outcome example_lib example_native 0x7000 4 []) \<noteq> 0"
    by simp
  show ?thesis
    using r fullTranscribe_failure_returns_empty_string [OF h, of empty_env]
    by simp
qed

text \<open>
  Claim C2. For every context handle and audio array: when \<^verbatim>\<open>whisper_full\<close> returns
  \<open>0\<close>, \<^verbatim>\<open>fullTranscribe\<close> returns the concatenation of the texts of the segments
  \<open>0\<close> to \<^verbatim>\<open>whisper_full_n_segments(context) - 1\<close>, in increasing order of the index, as
  one string.
\<close>

theorem fullTranscribe_success_concatenates_segments:
  assumes "fst (whisper_full_outcome lib w0 context_ptr num_threads audio_data) = 0"
  shows "fst (fullTranscribe lib jenv w0 context_ptr num_threads audio_data) =
           concat (map (segment_text_or_empty lib (ucast context_ptr)
                          (snd (whisper_full_outcome lib w0 context_ptr num_threads audio_data)))
             [0..sint (whisper_full_n_segments lib (ucast context_ptr)
                         (snd (whisper_full_outcome lib w0 context_ptr num_threads audio_data))) - 1])"
  using assms by (simp add: fullTranscribe_text)

text \<open>The example library produces two segments on an array with one sample.\<close>

theorem fullTranscribe_success_concatenates_segments_witness:
  "fst (whisper_full_outcome example_lib example_native 0x7000 4 [0]) = 0
   \<and> fst (fullTranscribe example_lib empty_env example_native 0x7000 4 [0]) = ''hello world''"
proof -
  have h: "fst (whisper_full_outcome example_lib example_native 0x7000 4 [0]) = 0"
    by code_simp
  have "concat (map (segment_text_or_empty example_lib (ucast (0x7000 :: jlong))
                       (snd (whisper_full_outcome example_lib example_native 0x7000 4 [0])))
          [0..sint (whisper_full_n_segments example_lib (ucast (0x7000 :: jlong))
                      (snd (whisper_full_outcome example_lib example_native 0x7000 4 [0]))) - 1])
        = ''hello world''"
    by code_simp
  with h fullTranscribe_success_concatenates_segments [OF h, of empty_env]
  show ?thesis by simp
qed



text \<open>
  Claim C9. On both paths of \<^verbatim>\<open>fullTranscribe\<close> the audio buffer is released once,
  with \<^verbatim>\<open>JNI_ABORT\<close>, and the contents of the managed float array after the call are
  the contents before it.
\<close>

theorem fullTranscribe_audio_unchanged:
  "snd (snd (snd (fullTranscribe lib jenv w0 context_ptr num_threads audio_data))) = audio_data
   \<and> float_releases (jni_calls (fst (snd
         (fullTranscribe lib jenv w0 context_ptr num_threads audio_data)))) =
       float_releases (jni_calls jenv) @ [JNI_ABORT]"
  by (simp add: fullTranscribe_audio fullTranscribe_jni_calls float_releases_append)

theorem fullTranscribe_audio_unchanged_witness:
  "snd (snd (snd (fullTranscribe example_lib empty_env example_native 0x7000 4 [0, 1])))
     = [0, 1]
   \<and> float_releases (jni_calls (fst (snd
         (fullTranscribe example_lib empty_env example_native 0x7000 4 [0, 1])))) = [JNI_ABORT]
   \<and> snd (snd (snd (fullTranscribe example_lib empty_env example_native 0x7000 4 []))) = []
   \<and> float_releases (jni_calls (fst (snd
         (fullTranscribe example_lib empty_env example_native 0x7000 4 [])))) = [JNI_ABORT]"
  using fullTranscribe_audio_unchanged [of example_lib empty_env example_native "0x7000" 4 "[0, 1]"]
    fullTranscribe_audio_unchanged [of example_lib empty_env example_native "0x7000" 4 "[]"]
  by (simp add: empty_env_def)

end
